theory Spec2Isabelle
  imports Complex_Main "HOL-Library.AList"
begin

section \<open>Python values shared by both scripts\<close>

text \<open>
  Every handler of the two scripts is \<^verbatim>\<open>except Exception as e\<close> and uses the
  exception only through \<^verbatim>\<open>str(e)\<close>. An exception is therefore a value of
  \<open>py_exception\<close>; the constructors name the built-in classes the scripts' own
  statements raise, and \<open>LibraryError\<close> is an exception raised inside a library
  call (transformers, torch, librosa, tensorflow), carrying its \<^verbatim>\<open>str()\<close>.
  All of them are instances of \<^verbatim>\<open>Exception\<close>; the interpreter's control signals
  (\<^verbatim>\<open>KeyboardInterrupt\<close>, \<^verbatim>\<open>SystemExit\<close>) are not failures of a call and are not
  modelled.
\<close>

datatype py_exception =
    KeyError string
  | ValueError string
  | TypeError string
  | IndexError string
  | LibraryError string

text \<open>
  \<^verbatim>\<open>str(e)\<close>. A \<^verbatim>\<open>KeyError\<close> prints the \<^verbatim>\<open>repr\<close> of its key, which for the
  digit strings used as keys here is the key between apostrophes.
\<close>

fun str_exc :: "py_exception \<Rightarrow> string" where
  "str_exc (KeyError k) = [CHR 0x27] @ k @ [CHR 0x27]"
| "str_exc (ValueError m) = m"
| "str_exc (TypeError m) = m"
| "str_exc (IndexError m) = m"
| "str_exc (LibraryError m) = m"

text \<open>
  The values that reach \<^verbatim>\<open>json.dumps\<close>: booleans, strings, floats and
  dictionaries. A dictionary is an association list in insertion order, as a
  Python \<^verbatim>\<open>dict\<close> is; a key is absent when \<open>map_of\<close> gives \<open>None\<close>.
  Floats are modelled by real numbers: the claims about them concern only
  their order and equality.
\<close>

datatype json =
    JBool bool
  | JStr string
  | JNum real
  | JObj "(string \<times> json) list"

type_synonym py_dict = "(string \<times> json) list"

text \<open>\<^verbatim>\<open>d[k] = v\<close>: overwrite in place, or append a new key.\<close>

definition dict_set :: "py_dict \<Rightarrow> string \<Rightarrow> json \<Rightarrow> py_dict" where
  "dict_set d k v = AList.update k v d"

text \<open>\<^verbatim>\<open>str(i)\<close> for a non-negative integer: its decimal digits.\<close>

definition digit_char :: "nat \<Rightarrow> char" where
  "digit_char d = ''0123456789'' ! d"

fun str_nat :: "nat \<Rightarrow> string" where
  "str_nat n = (if n < 10 then [digit_char n] else str_nat (n div 10) @ [digit_char (n mod 10)])"

declare str_nat.simps [simp del]

section \<open>Hub-Model Classifier (huggingface\_emotion.py)\<close>

text \<open>The module-level label table, a dictionary from \<^verbatim>\<open>str(index)\<close> to label.\<close>

definition id2label :: "(string \<times> string) list" where
  "id2label =
    [(''0'', ''angry''), (''1'', ''calm''), (''2'', ''disgust''), (''3'', ''fear''),
     (''4'', ''happy''), (''5'', ''neutral''), (''6'', ''sad''), (''7'', ''surprise'')]"

text \<open>\<^verbatim>\<open>id2label[str(i)]\<close>, raising \<^verbatim>\<open>KeyError\<close> on a missing key.\<close>

definition id2label_get :: "nat \<Rightarrow> py_exception + string" where
  "id2label_get i =
     (case map_of id2label (str_nat i) of
        None \<Rightarrow> Inl (KeyError (str_nat i))
      | Some emotion \<Rightarrow> Inr emotion)"

text \<open>
  The library calls of \<^verbatim>\<open>classify_audio\<close>, in the order the source makes them.
  Each either raises or returns. \<open>forward_softmax\<close> stands for lines 53 to 56 up
  to \<^verbatim>\<open>softmax(logits, dim=1)\<close>: the clip is a single batch row, so the tensor
  has shape \<open>(1, n)\<close> and is given by its one row of \<open>n\<close> probabilities.
\<close>

record ('m, 'p, 'w, 'i) hub =
  model_from_pretrained :: "string \<Rightarrow> py_exception + 'm"
  extractor_from_pretrained :: "string \<Rightarrow> py_exception + 'p"
  librosa_load :: "string \<Rightarrow> py_exception + 'w"
  processor_call :: "'p \<Rightarrow> 'w \<Rightarrow> py_exception + 'i"
  forward_softmax :: "'m \<Rightarrow> 'i \<Rightarrow> py_exception + real list"

text \<open>
  \<^verbatim>\<open>.squeeze().tolist()\<close> on a tensor of shape \<open>(1, n)\<close>: \<^verbatim>\<open>squeeze\<close> drops every
  axis of size one, so a single probability becomes a zero-dimensional tensor and
  \<^verbatim>\<open>tolist\<close> gives a bare float; otherwise the result is the list of the row.
\<close>

datatype py_probs = PyFloat real | PyList "real list"

definition squeeze_tolist :: "real list \<Rightarrow> py_probs" where
  "squeeze_tolist row = (case row of [p] \<Rightarrow> PyFloat p | _ \<Rightarrow> PyList row)"

text \<open>
  The loop of lines 59 to 62 over \<^verbatim>\<open>range(len(probs))\<close>, with the dictionary
  \<open>scores\<close> as its state. A missing label ends the loop with the \<^verbatim>\<open>KeyError\<close>.
\<close>

fun scores_loop :: "real list \<Rightarrow> nat list \<Rightarrow> py_dict \<Rightarrow> py_exception + py_dict" where
  "scores_loop probs [] scores = Inr scores"
| "scores_loop probs (i # rest) scores =
     (case id2label_get i of
        Inl e \<Rightarrow> Inl e
      | Inr emotion \<Rightarrow> scores_loop probs rest (dict_set scores emotion (JNum (probs ! i))))"

text \<open>
  \<^verbatim>\<open>max(probs)\<close>: the running maximum, replaced only by a strictly larger item;
  an empty sequence raises \<^verbatim>\<open>ValueError\<close>.
\<close>

definition py_max :: "real list \<Rightarrow> py_exception + real" where
  "py_max xs =
     (case xs of
        [] \<Rightarrow> Inl (ValueError ''max() arg is an empty sequence'')
      | x # rest \<Rightarrow> Inr (fold (\<lambda>item best. if best < item then item else best) rest x))"

text \<open>\<^verbatim>\<open>probs.index(v)\<close>: the first position holding \<open>v\<close>, or \<^verbatim>\<open>ValueError\<close>.\<close>

fun py_index :: "real list \<Rightarrow> real \<Rightarrow> py_exception + nat" where
  "py_index [] v = Inl (ValueError ''value is not in list'')"
| "py_index (x # xs) v =
     (if x = v then Inr 0
      else (case py_index xs v of Inl e \<Rightarrow> Inl e | Inr k \<Rightarrow> Inr (Suc k)))"

text \<open>
  Lines 58 to 75: from the value of \<open>probs\<close> to the returned dictionary.
  \<^verbatim>\<open>len(probs)\<close> raises \<^verbatim>\<open>TypeError\<close> on a float, which has no length.
\<close>

definition interpret_probs :: "py_probs \<Rightarrow> py_exception + py_dict" where
  "interpret_probs probs =
     (case probs of
        PyFloat _ \<Rightarrow> Inl (TypeError ''object of type 'float' has no len()'')
      | PyList xs \<Rightarrow>
         (case scores_loop xs [0..<length xs] [] of
            Inl e \<Rightarrow> Inl e
          | Inr scores \<Rightarrow>
             (case py_max xs of
                Inl e \<Rightarrow> Inl e
              | Inr m \<Rightarrow>
                 (case py_index xs m of
                    Inl e \<Rightarrow> Inl e
                  | Inr dominant_idx \<Rightarrow>
                     (case id2label_get dominant_idx of
                        Inl e \<Rightarrow> Inl e
                      | Inr dominant_emotion \<Rightarrow>
                         (case py_max xs of
                            Inl e \<Rightarrow> Inl e
                          | Inr confidence \<Rightarrow>
                             Inr [(''success'', JBool True),
                                  (''emotion'', JStr dominant_emotion),
                                  (''confidence'', JNum confidence),
                                  (''scores'', JObj scores),
                                  (''model'', JStr ''huggingface-prithiv'')]))))))"

text \<open>Lines 36 to 56 up to the softmax: the library calls, stopping at the first that raises.\<close>

definition softmax_row ::
  "('m, 'p, 'w, 'i) hub \<Rightarrow> string \<Rightarrow> string \<Rightarrow> py_exception + real list" where
  "softmax_row h model_name audio_path =
     (case model_from_pretrained h model_name of
        Inl e \<Rightarrow> Inl e
      | Inr model \<Rightarrow>
         (case extractor_from_pretrained h model_name of
            Inl e \<Rightarrow> Inl e
          | Inr processor \<Rightarrow>
             (case librosa_load h audio_path of
                Inl e \<Rightarrow> Inl e
              | Inr speech \<Rightarrow>
                 (case processor_call h processor speech of
                    Inl e \<Rightarrow> Inl e
                  | Inr inputs \<Rightarrow> forward_softmax h model inputs))))"

text \<open>The body of the \<^verbatim>\<open>try\<close> block, lines 36 to 75.\<close>

definition classify_body ::
  "('m, 'p, 'w, 'i) hub \<Rightarrow> string \<Rightarrow> string \<Rightarrow> py_exception + py_dict" where
  "classify_body h model_name audio_path =
     (case softmax_row h model_name audio_path of
        Inl e \<Rightarrow> Inl e
      | Inr row \<Rightarrow> interpret_probs (squeeze_tolist row))"

text \<open>The dictionary both handlers build, lines 78 to 81 and 96 to 99.\<close>

definition failure_result :: "py_exception \<Rightarrow> py_dict" where
  "failure_result e = [(''success'', JBool False), (''error'', JStr (str_exc e))]"

text \<open>
  \<^verbatim>\<open>classify_audio\<close>: the \<^verbatim>\<open>try\<close> block with its handler, lines 77 to 81. The
  progress line written to the error stream is not part of the result.
\<close>

definition classify_audio :: "('m, 'p, 'w, 'i) hub \<Rightarrow> string \<Rightarrow> string \<Rightarrow> py_dict" where
  "classify_audio h model_name audio_path =
     (case classify_body h model_name audio_path of
        Inr result \<Rightarrow> result
      | Inl e \<Rightarrow> failure_result e)"

text \<open>\<^verbatim>\<open>sys.argv[k]\<close>.\<close>

definition argv_get :: "string list \<Rightarrow> nat \<Rightarrow> py_exception + string" where
  "argv_get argv k =
     (if k < length argv then Inr (argv ! k) else Inl (IndexError ''list index out of range''))"

text \<open>
  The block under \<^verbatim>\<open>if __name__ == "__main__"\<close>, lines 83 to 100. Its value is
  the list of objects the block hands to \<^verbatim>\<open>print(json.dumps(...))\<close>.
\<close>

definition main :: "('m, 'p, 'w, 'i) hub \<Rightarrow> string list \<Rightarrow> py_dict list" where
  "main h argv =
     (case argv_get argv 1 of
        Inl e \<Rightarrow> [failure_result e]
      | Inr model_name \<Rightarrow>
         (case argv_get argv 2 of
            Inl e \<Rightarrow> [failure_result e]
          | Inr audio_path \<Rightarrow> [classify_audio h model_name audio_path]))"

text \<open>
  The script as a process. The module-level imports of lines 15 to 17
  (\<^verbatim>\<open>transformers\<close>, \<^verbatim>\<open>torch\<close>, \<^verbatim>\<open>librosa\<close>) run first and outside both
  \<^verbatim>\<open>try\<close> blocks: an exception there ends the process with a traceback before the
  block of lines 83 to 100 is reached. The value is the list of objects written
  to the output stream and the exception that ended the process, if any.
\<close>

definition script ::
  "py_exception + unit \<Rightarrow> ('m, 'p, 'w, 'i) hub \<Rightarrow> string list
     \<Rightarrow> py_dict list \<times> py_exception option" where
  "script third_party h argv =
     (case third_party of
        Inl e \<Rightarrow> ([], Some e)
      | Inr _ \<Rightarrow> (main h argv, None))"

text \<open>
  Collaborators for the examples: every library call returns, and the model
  yields the given row of probabilities.
\<close>

definition hub_returning :: "real list \<Rightarrow> (unit, unit, unit, unit) hub" where
  "hub_returning row =
     \<lparr>model_from_pretrained = (\<lambda>_. Inr ()),
      extractor_from_pretrained = (\<lambda>_. Inr ()),
      librosa_load = (\<lambda>_. Inr ()),
      processor_call = (\<lambda>_ _. Inr ()),
      forward_softmax = (\<lambda>_ _. Inr row)\<rparr>"

text \<open>The same, except that decoding the audio raises the given exception.\<close>

definition hub_unreadable_audio :: "py_exception \<Rightarrow> (unit, unit, unit, unit) hub" where
  "hub_unreadable_audio e = (hub_returning [])\<lparr>librosa_load := (\<lambda>_. Inl e)\<rparr>"

section \<open>Compatible Attention Layer (test\_custom\_model.py, lines 39 to 103)\<close>

text \<open>
  A weight as \<^verbatim>\<open>add_weight\<close> receives it, and the state of the layer object: the
  two configuration attributes, the flag set by the constructor, the attribute
  \<open>scale\<close>, and the weight list and \<open>built\<close> flag kept by the base class.
\<close>

record weight =
  w_name :: string
  w_shape :: "nat list"
  w_initializer :: string
  w_trainable :: bool

record attention_layer =
  use_scale :: bool
  score_mode :: string
  supports_masking :: bool
  scale :: "weight option"
  weights :: "weight list"
  built :: bool

text \<open>\<^verbatim>\<open>__init__\<close>, lines 44 to 48.\<close>

definition attention_init :: "bool \<Rightarrow> string \<Rightarrow> attention_layer" where
  "attention_init us sm =
     \<lparr>use_scale = us, score_mode = sm, supports_masking = True,
      scale = None, weights = [], built = False\<rparr>"

text \<open>The base class's \<^verbatim>\<open>add_weight\<close>: register the weight and return it.\<close>

definition add_weight ::
  "attention_layer \<Rightarrow> string \<Rightarrow> nat list \<Rightarrow> string \<Rightarrow> bool \<Rightarrow> attention_layer \<times> weight" where
  "add_weight layer name shape initializer trainable =
     (let w = \<lparr>w_name = name, w_shape = shape, w_initializer = initializer,
                 w_trainable = trainable\<rparr>
      in (layer\<lparr>weights := weights layer @ [w]\<rparr>, w))"

text \<open>\<^verbatim>\<open>build\<close>, lines 50 to 59.\<close>

definition build :: "attention_layer \<Rightarrow> nat list \<Rightarrow> attention_layer" where
  "build layer input_shape =
     (let layer1 =
        (if use_scale layer
         then (case add_weight layer ''scale'' [] ''ones'' True of
                 (l, w) \<Rightarrow> l\<lparr>scale := Some w\<rparr>)
         else layer)
      in layer1\<lparr>built := True\<rparr>)"

definition trainable_weights :: "attention_layer \<Rightarrow> weight list" where
  "trainable_weights layer = filter w_trainable (weights layer)"

text \<open>
  The values a weight starts from: the initializer named \<^verbatim>\<open>'ones'\<close> fills
  the shape with 1.0 and \<^verbatim>\<open>'zeros'\<close> with 0.0; a scalar (shape \<open>()\<close>) has one
  entry.
\<close>

definition initial_value :: "weight \<Rightarrow> real list option" where
  "initial_value w =
     (if w_initializer w = ''ones'' then Some (replicate (prod_list (w_shape w)) 1)
      else if w_initializer w = ''zeros'' then Some (replicate (prod_list (w_shape w)) 0)
      else None)"

section \<open>Model Artifact Loader/Prober (test\_custom\_model.py)\<close>

datatype invocation = DirectCall | PredictCall

type_synonym tensor_shape = "nat list"

text \<open>
  \<^verbatim>\<open>test_model\<close> returns nothing: what it does is the sequence of its library
  calls and of the lines it prints. Both are recorded, in order, in one trace.
  \<open>LoadModel p True\<close> is \<^verbatim>\<open>load_model\<close> with
  \<^verbatim>\<open>custom_objects={'Attention': CompatibleAttention}\<close>, \<open>LoadModel p False\<close>
  the call without it. \<open>Invoke DirectCall s\<close> is
  \<^verbatim>\<open>model(dummy_input, training=False).numpy()\<close> and \<open>Invoke PredictCall s\<close> is
  \<^verbatim>\<open>model.predict(dummy_input, verbose=0)\<close>, on an input of shape \<open>s\<close>.
\<close>

datatype call =
    ImportTensorflow
  | PathExists string
  | PathGetsize string
  | ImportKeras
  | LoadModel string bool
  | ModelSummary
  | Invoke invocation tensor_shape

text \<open>The printed lines, one constructor for each \<^verbatim>\<open>print\<close> of the source.\<close>

datatype line =
    Title
  | Rule
  | CheckingTensorflow
  | TensorflowVersion string
  | CheckingModelFile
  | ModelFileFound string
  | FileSize nat
  | ModelFileNotFound string
  | AttemptingLoad
  | LoadedWithCompatibleAttention
  | CustomObjectsFailed string
  | TryingStandard
  | LoadedStandard
  | StandardAlsoFailed string
  | ModelArchitecture
  | TestingDummyData
  | TestingShape tensor_shape
  | CallSucceeded tensor_shape
  | PredictSucceeded tensor_shape
  | OutputShape tensor_shape
  | OutputSample string
  | CallFailed string
  | PredictFailed string
  | TestingFailed string
  | TestCompleted
  | TestFailed string

datatype effect = Call call | Print line

text \<open>
  The sign each line starts with in the source: a check mark for a step that
  worked, a warning sign for a failure the script recovers from, a cross mark for
  a failure it reports, or none.
\<close>

datatype sign = CheckMark | WarningSign | CrossMark | NoSign

fun sign_of :: "line \<Rightarrow> sign" where
  "sign_of (TensorflowVersion _) = CheckMark"
| "sign_of (ModelFileFound _) = CheckMark"
| "sign_of (ModelFileNotFound _) = CrossMark"
| "sign_of LoadedWithCompatibleAttention = CheckMark"
| "sign_of (CustomObjectsFailed _) = WarningSign"
| "sign_of LoadedStandard = CheckMark"
| "sign_of (StandardAlsoFailed _) = CrossMark"
| "sign_of (CallSucceeded _) = CheckMark"
| "sign_of (PredictSucceeded _) = CheckMark"
| "sign_of (CallFailed _) = WarningSign"
| "sign_of (PredictFailed _) = WarningSign"
| "sign_of (TestingFailed _) = CrossMark"
| "sign_of TestCompleted = CheckMark"
| "sign_of (TestFailed _) = CrossMark"
| "sign_of _ = NoSign"

text \<open>
  The library calls of \<^verbatim>\<open>test_model\<close>. Each either raises or returns.
  \<open>output_shape\<close> and \<open>output_sample\<close> are the reads \<^verbatim>\<open>predictions.shape\<close> and
  \<^verbatim>\<open>predictions[0][:5]\<close> made while printing, which raise on an output that has
  no such attribute or no first row. Drawing the random input
  (\<^verbatim>\<open>np.random.randn(*shape).astype(np.float32)\<close>, shapes fixed) and printing do
  not raise.
\<close>

record ('m, 'o) world =
  import_tensorflow :: "py_exception + string"
  path_exists :: "string \<Rightarrow> bool"
  path_getsize :: "string \<Rightarrow> py_exception + nat"
  import_keras :: "py_exception + unit"
  load_model :: "string \<Rightarrow> bool \<Rightarrow> py_exception + 'm"
  model_summary :: "'m \<Rightarrow> py_exception + unit"
  invoke :: "'m \<Rightarrow> invocation \<Rightarrow> tensor_shape \<Rightarrow> py_exception + 'o"
  output_shape :: "'o \<Rightarrow> py_exception + tensor_shape"
  output_sample :: "'o \<Rightarrow> py_exception + string"

definition model_path :: string where
  "model_path = ''./src/models/emotion_bilstm_final.h5''"

definition test_shapes :: "tensor_shape list" where
  "test_shapes = [[1, 40, 174], [1, 174, 40]]"

fun succeeded_line :: "invocation \<Rightarrow> tensor_shape \<Rightarrow> line" where
  "succeeded_line DirectCall s = CallSucceeded s"
| "succeeded_line PredictCall s = PredictSucceeded s"

fun failed_line :: "invocation \<Rightarrow> string \<Rightarrow> line" where
  "failed_line DirectCall msg = CallFailed msg"
| "failed_line PredictCall msg = PredictFailed msg"

text \<open>
  The body of one inner \<^verbatim>\<open>try\<close> block (lines 141 to 145, or 151 to 155): the
  invocation and the three prints after it, up to the \<^verbatim>\<open>break\<close>. It gives its
  part of the trace and the exception that ended it, if any.
\<close>

definition attempt ::
  "('m, 'o) world \<Rightarrow> 'm \<Rightarrow> invocation \<Rightarrow> tensor_shape \<Rightarrow> effect list \<times> py_exception option" where
  "attempt w model meth s =
     (case invoke w model meth s of
        Inl e \<Rightarrow> ([Call (Invoke meth s)], Some e)
      | Inr predictions \<Rightarrow>
         (case output_shape w predictions of
            Inl e \<Rightarrow> ([Call (Invoke meth s), Print (succeeded_line meth s)], Some e)
          | Inr out_shape \<Rightarrow>
             (case output_sample w predictions of
                Inl e \<Rightarrow>
                  ([Call (Invoke meth s), Print (succeeded_line meth s),
                    Print (OutputShape out_shape)], Some e)
              | Inr sample \<Rightarrow>
                  ([Call (Invoke meth s), Print (succeeded_line meth s),
                    Print (OutputShape out_shape), Print (OutputSample sample)], None))))"

text \<open>
  The block with its handler (lines 146 to 147, or 156 to 157), which prints the
  failure line. The flag tells whether the \<^verbatim>\<open>break\<close> was reached.
\<close>

definition try_invoke ::
  "('m, 'o) world \<Rightarrow> 'm \<Rightarrow> invocation \<Rightarrow> tensor_shape \<Rightarrow> effect list \<times> bool" where
  "try_invoke w model meth s =
     (case attempt w model meth s of
        (t, None) \<Rightarrow> (t, True)
      | (t, Some e) \<Rightarrow> (t @ [Print (failed_line meth (str_exc e))], False))"

text \<open>The \<^verbatim>\<open>for\<close> loop over the candidate shapes, lines 134 to 160.\<close>

fun probe :: "('m, 'o) world \<Rightarrow> 'm \<Rightarrow> tensor_shape list \<Rightarrow> effect list" where
  "probe w model [] = []"
| "probe w model (s # rest) =
     (case try_invoke w model DirectCall s of
        (t1, True) \<Rightarrow> Print (TestingShape s) # t1
      | (t1, False) \<Rightarrow>
         (case try_invoke w model PredictCall s of
            (t2, True) \<Rightarrow> Print (TestingShape s) # t1 @ t2
          | (t2, False) \<Rightarrow> Print (TestingShape s) # t1 @ t2 @ probe w model rest))"

text \<open>
  The stages of the outer \<^verbatim>\<open>try\<close> block. Each gives its part of the trace and
  the exception that left it uncaught, if any.
\<close>

text \<open>Lines 122 to 163, with the loaded model.\<close>

definition probe_stage :: "('m, 'o) world \<Rightarrow> 'm \<Rightarrow> effect list \<times> py_exception option" where
  "probe_stage w model =
     (case model_summary w model of
        Inl e \<Rightarrow> ([Print ModelArchitecture, Call ModelSummary], Some e)
      | Inr _ \<Rightarrow>
          ([Print ModelArchitecture, Call ModelSummary, Print TestingDummyData]
             @ probe w model test_shapes @ [Print Rule, Print TestCompleted], None))"

text \<open>Lines 105 to 120, then the rest of the function.\<close>

definition load_stage :: "('m, 'o) world \<Rightarrow> effect list \<times> py_exception option" where
  "load_stage w =
     (case load_model w model_path True of
        Inr model \<Rightarrow>
          (case probe_stage w model of
             (t, x) \<Rightarrow>
               (Call (LoadModel model_path True) # Print LoadedWithCompatibleAttention # t, x))
      | Inl e \<Rightarrow>
          (case load_model w model_path False of
             Inr model \<Rightarrow>
               (case probe_stage w model of
                  (t, x) \<Rightarrow>
                    ([Call (LoadModel model_path True), Print (CustomObjectsFailed (str_exc e)),
                      Print TryingStandard, Call (LoadModel model_path False),
                      Print LoadedStandard] @ t, x))
           | Inl e2 \<Rightarrow>
               ([Call (LoadModel model_path True), Print (CustomObjectsFailed (str_exc e)),
                 Print TryingStandard, Call (LoadModel model_path False),
                 Print (StandardAlsoFailed (str_exc e2))], None)))"

text \<open>Lines 15 to 37, then the rest of the function.\<close>

definition test_body :: "('m, 'o) world \<Rightarrow> effect list \<times> py_exception option" where
  "test_body w =
     (case import_tensorflow w of
        Inl e \<Rightarrow> ([Print Title, Print Rule, Print CheckingTensorflow, Call ImportTensorflow], Some e)
      | Inr version \<Rightarrow>
         (if path_exists w model_path then
            (case path_getsize w model_path of
               Inl e \<Rightarrow>
                 ([Print Title, Print Rule, Print CheckingTensorflow, Call ImportTensorflow,
                   Print (TensorflowVersion version), Print CheckingModelFile,
                   Call (PathExists model_path), Print (ModelFileFound model_path),
                   Call (PathGetsize model_path)], Some e)
             | Inr size_bytes \<Rightarrow>
                (case import_keras w of
                   Inl e \<Rightarrow>
                     ([Print Title, Print Rule, Print CheckingTensorflow, Call ImportTensorflow,
                       Print (TensorflowVersion version), Print CheckingModelFile,
                       Call (PathExists model_path), Print (ModelFileFound model_path),
                       Call (PathGetsize model_path), Print (FileSize size_bytes),
                       Print AttemptingLoad, Call ImportKeras], Some e)
                 | Inr _ \<Rightarrow>
                    (case load_stage w of
                       (t, x) \<Rightarrow>
                         ([Print Title, Print Rule, Print CheckingTensorflow,
                           Call ImportTensorflow, Print (TensorflowVersion version),
                           Print CheckingModelFile, Call (PathExists model_path),
                           Print (ModelFileFound model_path), Call (PathGetsize model_path),
                           Print (FileSize size_bytes), Print AttemptingLoad,
                           Call ImportKeras] @ t, x))))
          else
            ([Print Title, Print Rule, Print CheckingTensorflow, Call ImportTensorflow,
              Print (TensorflowVersion version), Print CheckingModelFile,
              Call (PathExists model_path), Print (ModelFileNotFound model_path)], None)))"

text \<open>
  \<^verbatim>\<open>test_model\<close>: the outer \<^verbatim>\<open>try\<close> block with its handler, lines 165 to 168
  (the traceback goes to the error stream and is not part of the trace).
\<close>

definition test_model :: "('m, 'o) world \<Rightarrow> effect list" where
  "test_model w =
     (case test_body w of
        (t, None) \<Rightarrow> t
      | (t, Some e) \<Rightarrow> t @ [Print (TestFailed (str_exc e))])"

text \<open>The parts of a trace the claims speak about.\<close>

definition calls_of :: "effect list \<Rightarrow> call list" where
  "calls_of t = concat (map (\<lambda>x. case x of Call c \<Rightarrow> [c] | Print _ \<Rightarrow> []) t)"

definition lines_of :: "effect list \<Rightarrow> line list" where
  "lines_of t = concat (map (\<lambda>x. case x of Call _ \<Rightarrow> [] | Print l \<Rightarrow> [l]) t)"

definition attempts_of :: "effect list \<Rightarrow> (tensor_shape \<times> invocation) list" where
  "attempts_of t =
     concat (map (\<lambda>x. case x of Call (Invoke meth s) \<Rightarrow> [(s, meth)] | _ \<Rightarrow> []) t)"

definition loads_of :: "effect list \<Rightarrow> bool list" where
  "loads_of t =
     concat (map (\<lambda>x. case x of Call (LoadModel p custom) \<Rightarrow> [custom] | _ \<Rightarrow> []) t)"


text \<open>The lines of a trace that report a failure: those that start with the cross mark.\<close>

definition failure_lines :: "effect list \<Rightarrow> line list" where
  "failure_lines t = filter (\<lambda>l. sign_of l = CrossMark) (lines_of t)"

text \<open>The lines that report a failure the script recovers from: those with the warning sign.\<close>

definition warning_lines :: "effect list \<Rightarrow> line list" where
  "warning_lines t = filter (\<lambda>l. sign_of l = WarningSign) (lines_of t)"


text \<open>
  Collaborators for the examples: TensorFlow and Keras import, the file exists,
  the load with the substitution returns, and each invocation behaves as the
  given function says; an output that is returned can be printed.
\<close>

definition world_invoking ::
  "(invocation \<Rightarrow> tensor_shape \<Rightarrow> py_exception + unit) \<Rightarrow> (unit, unit) world" where
  "world_invoking f =
     \<lparr>import_tensorflow = Inr ''2.15.0'',
      path_exists = (\<lambda>_. True),
      path_getsize = (\<lambda>_. Inr 1048576),
      import_keras = Inr (),
      load_model = (\<lambda>_ _. Inr ()),
      model_summary = (\<lambda>_. Inr ()),
      invoke = (\<lambda>_. f),
      output_shape = (\<lambda>_. Inr [1, 8]),
      output_sample = (\<lambda>_. Inr ''[0.1 0.1 0.1 0.1 0.1]'')\<rparr>"

text \<open>An artifact that accepts only the shape \<open>(1, 174, 40)\<close>, and only through \<^verbatim>\<open>predict\<close>.\<close>

definition time_major_predict_only :: "invocation \<Rightarrow> tensor_shape \<Rightarrow> py_exception + unit" where
  "time_major_predict_only meth s =
     (if meth = PredictCall \<and> s = [1, 174, 40] then Inr ()
      else Inl (LibraryError ''incompatible input''))"



text \<open>The same collaborators, except that both loads raise, each its own exception.\<close>

definition world_unloadable :: "py_exception \<Rightarrow> py_exception \<Rightarrow> (unit, unit) world" where
  "world_unloadable e1 e2 =
     (world_invoking time_major_predict_only)
       \<lparr>load_model := (\<lambda>_ custom. Inl (if custom then e1 else e2))\<rparr>"

text \<open>A machine without TensorFlow, on which the model file does not exist either.\<close>

definition world_without_tensorflow :: "(unit, unit) world" where
  "world_without_tensorflow =
     (world_invoking time_major_predict_only)
       \<lparr>import_tensorflow := Inl (LibraryError ''No module named tensorflow''),
        path_exists := (\<lambda>_. False)\<rparr>"

section \<open>Properties of the Hub-Model Classifier\<close>

subsection \<open>The label table and the scores loop\<close>

lemma str_nat_digit: "n < 10 \<Longrightarrow> str_nat n = [digit_char n]"
  by (simp add: str_nat.simps)

lemma str_nat_not_Nil: "str_nat n \<noteq> []"
  by (subst str_nat.simps) simp

lemma str_nat_long: "10 \<le> n \<Longrightarrow> 2 \<le> length (str_nat n)"
proof -
  assume a: "10 \<le> n"
  have "1 \<le> length (str_nat (n div 10))"
    using str_nat_not_Nil [of "n div 10"] by (cases "str_nat (n div 10)") auto
  moreover from a have "str_nat n = str_nat (n div 10) @ [digit_char (n mod 10)]"
    by (subst str_nat.simps) simp
  ultimately show ?thesis by simp
qed

lemma id2label_key_length: "map_of id2label k = Some v \<Longrightarrow> length k = 1"
  by (auto simp: id2label_def split: if_splits)

lemma nat_lt_8_cases: "i < 8 \<Longrightarrow> i = 0 \<or> i = 1 \<or> i = 2 \<or> i = 3 \<or> i = 4 \<or> i = 5 \<or> i = 6 \<or> i = (7::nat)"
  by arith

lemma id2label_get_in_table: "i < 8 \<Longrightarrow> id2label_get i = Inr (map snd id2label ! i)"
  using nat_lt_8_cases [of i]
  by (auto simp: id2label_get_def str_nat_digit digit_char_def id2label_def)

lemma id2label_get_missing: "8 \<le> i \<Longrightarrow> id2label_get i = Inl (KeyError (str_nat i))"
proof -
  assume a: "8 \<le> i"
  have "map_of id2label (str_nat i) = None"
  proof (cases "i < 10")
    case True
    with a have "i = 8 \<or> i = 9" by arith
    then show ?thesis
      by (auto simp: str_nat_digit digit_char_def id2label_def)
  next
    case False
    then have "2 \<le> length (str_nat i)" by (simp add: str_nat_long)
    then show ?thesis
      using id2label_key_length [of "str_nat i"] by (cases "map_of id2label (str_nat i)") auto
  qed
  then show ?thesis by (simp add: id2label_get_def)
qed

lemma dict_set_fresh: "k \<notin> fst ` set d \<Longrightarrow> dict_set d k v = d @ [(k, v)]"
  unfolding dict_set_def by (induction d) auto

lemma scores_loop_append:
  "scores_loop probs (is @ js) scores =
     (case scores_loop probs is scores of Inl e \<Rightarrow> Inl e | Inr s \<Rightarrow> scores_loop probs js s)"
  by (induction "is" arbitrary: scores) (auto split: sum.splits)

lemma labels_distinct: "distinct (map snd id2label)"
  by (simp add: id2label_def)

lemma scores_loop_zip:
  "n \<le> 8 \<Longrightarrow> scores_loop probs [0..<n] [] =
     Inr (map (\<lambda>i. (map snd id2label ! i, JNum (probs ! i))) [0..<n])"
proof (induction n)
  case 0
  then show ?case by simp
next
  case (Suc n)
  then have n: "n < 8" by simp
  have fresh: "map snd id2label ! n \<notin> fst ` set (map (\<lambda>i. (map snd id2label ! i, JNum (probs ! i))) [0..<n])"
  proof
    assume "map snd id2label ! n \<in> fst ` set (map (\<lambda>i. (map snd id2label ! i, JNum (probs ! i))) [0..<n])"
    then obtain j where j: "j < n" "map snd id2label ! j = map snd id2label ! n"
      by (auto simp: image_iff)
    have "length (map snd id2label) = 8" by (simp add: id2label_def)
    with j n labels_distinct show False
      by (auto simp: distinct_conv_nth)
  qed
  from Suc n show ?case
    by (simp add: scores_loop_append id2label_get_in_table dict_set_fresh [OF fresh])
qed

lemma scores_loop_overflow:
  "8 < n \<Longrightarrow> scores_loop probs [0..<n] [] = Inl (KeyError ''8'')"
proof -
  assume a: "8 < n"
  then have "[0..<n] = [0..<8] @ 8 # [9..<n]"
    by (metis Suc_numeral less_imp_le_nat semiring_norm(5) upt_add_eq_append upt_conv_Cons zero_le le_add_diff_inverse)
  then show ?thesis
    by (simp add: scores_loop_append scores_loop_zip id2label_get_missing str_nat_digit digit_char_def del: upt_Suc)
qed


subsection \<open>Maximum and first index\<close>

lemma py_max_Max: "xs \<noteq> [] \<Longrightarrow> py_max xs = Inr (Max (set xs))"
proof -
  have eq: "(\<lambda>item best. if best < item then item else best) = (max :: real \<Rightarrow> real \<Rightarrow> real)"
    by (auto simp: fun_eq_iff max_def)
  assume "xs \<noteq> []"
  then obtain x rest where xs: "xs = x # rest" by (cases xs) auto
  have "fold max rest x = Max (set (x # rest))"
    by (rule Max.set_eq_fold [symmetric])
  with xs show ?thesis
    by (simp add: py_max_def eq)
qed

lemma py_index_first:
  "v \<in> set xs \<Longrightarrow> \<exists>i<length xs. py_index xs v = Inr i \<and> xs ! i = v \<and> (\<forall>j<i. xs ! j \<noteq> v)"
proof (induction xs)
  case Nil
  then show ?case by simp
next
  case (Cons x xs)
  show ?case
  proof (cases "x = v")
    case True
    then show ?thesis by simp
  next
    case False
    with Cons.prems have "v \<in> set xs" by simp
    from Cons.IH [OF this] obtain i where i: "i < length xs" "py_index xs v = Inr i"
      "xs ! i = v" "\<forall>j<i. xs ! j \<noteq> v" by blast
    have "\<forall>j<Suc i. (x # xs) ! j \<noteq> v"
      using False i(4) by (auto simp: nth_Cons split: nat.splits)
    with False i show ?thesis by auto
  qed
qed

lemma interpret_probs_list:
  assumes "xs \<noteq> []" and "length xs \<le> 8"
  shows "\<exists>i<length xs. (\<forall>j<length xs. xs ! j \<le> xs ! i) \<and> (\<forall>j<i. xs ! j < xs ! i) \<and>
           interpret_probs (PyList xs) =
             Inr [(''success'', JBool True),
                  (''emotion'', JStr (map snd id2label ! i)),
                  (''confidence'', JNum (xs ! i)),
                  (''scores'', JObj (map (\<lambda>k. (map snd id2label ! k, JNum (xs ! k))) [0..<length xs])),
                  (''model'', JStr ''huggingface-prithiv'')]"
proof -
  have fin: "finite (set xs)" "set xs \<noteq> {}" using assms(1) by auto
  then have "Max (set xs) \<in> set xs" by (rule Max_in)
  from py_index_first [OF this] obtain i where i: "i < length xs"
    "py_index xs (Max (set xs)) = Inr i" "xs ! i = Max (set xs)"
    "\<forall>j<i. xs ! j \<noteq> Max (set xs)" by blast
  have le: "\<forall>j<length xs. xs ! j \<le> xs ! i"
    using i(3) fin by simp
  have lt: "\<forall>j<i. xs ! j < xs ! i"
  proof (intro allI impI)
    fix j assume "j < i"
    with i(1) i(4) le have "xs ! j \<noteq> xs ! i" "xs ! j \<le> xs ! i" using i(3) by auto
    then show "xs ! j < xs ! i" by simp
  qed
  from i(1) assms(2) have "i < 8" by simp
  then have "interpret_probs (PyList xs) =
             Inr [(''success'', JBool True),
                  (''emotion'', JStr (map snd id2label ! i)),
                  (''confidence'', JNum (xs ! i)),
                  (''scores'', JObj (map (\<lambda>k. (map snd id2label ! k, JNum (xs ! k))) [0..<length xs])),
                  (''model'', JStr ''huggingface-prithiv'')]"
    using assms i(2) i(3)
    by (simp add: interpret_probs_def scores_loop_zip py_max_Max id2label_get_in_table)
  with i(1) le lt show ?thesis by blast
qed

lemma interpret_probs_too_long:
  "8 < length xs \<Longrightarrow> interpret_probs (PyList xs) = Inl (KeyError ''8'')"
  by (simp add: interpret_probs_def scores_loop_overflow)

lemma interpret_probs_empty:
  "interpret_probs (PyList []) = Inl (ValueError ''max() arg is an empty sequence'')"
  by (simp add: interpret_probs_def py_max_def)

lemma squeeze_tolist_cases:
  "squeeze_tolist row = (if length row = 1 then PyFloat (hd row) else PyList row)"
  by (cases row; cases "tl row") (auto simp: squeeze_tolist_def)


subsection \<open>The result for each kind of row\<close>

lemma classify_audio_raised:
  "softmax_row h n p = Inl e \<Longrightarrow>
   classify_audio h n p = [(''success'', JBool False), (''error'', JStr (str_exc e))]"
  by (simp add: classify_audio_def classify_body_def failure_result_def)

lemma classify_audio_empty_row:
  "softmax_row h n p = Inr [] \<Longrightarrow>
   classify_audio h n p =
     [(''success'', JBool False), (''error'', JStr ''max() arg is an empty sequence'')]"
  by (simp add: classify_audio_def classify_body_def failure_result_def squeeze_tolist_def
      interpret_probs_empty)

lemma classify_audio_single_row:
  "softmax_row h n p = Inr [x] \<Longrightarrow>
   classify_audio h n p =
     [(''success'', JBool False), (''error'', JStr ''object of type 'float' has no len()'')]"
  by (simp add: classify_audio_def classify_body_def failure_result_def squeeze_tolist_def
      interpret_probs_def)

lemma classify_audio_long_row:
  "softmax_row h n p = Inr row \<Longrightarrow> 8 < length row \<Longrightarrow>
   classify_audio h n p =
     [(''success'', JBool False), (''error'', JStr [CHR 0x27, CHR ''8'', CHR 0x27])]"
  by (simp add: classify_audio_def classify_body_def failure_result_def squeeze_tolist_cases
      interpret_probs_too_long)

lemma classify_audio_good_row:
  assumes "softmax_row h n p = Inr row" and "2 \<le> length row" and "length row \<le> 8"
  shows "\<exists>i<length row. (\<forall>j<length row. row ! j \<le> row ! i) \<and> (\<forall>j<i. row ! j < row ! i) \<and>
           classify_audio h n p =
             [(''success'', JBool True),
              (''emotion'', JStr (map snd id2label ! i)),
              (''confidence'', JNum (row ! i)),
              (''scores'', JObj (map (\<lambda>k. (map snd id2label ! k, JNum (row ! k))) [0..<length row])),
              (''model'', JStr ''huggingface-prithiv'')]"
proof -
  from assms(2) have ne: "row \<noteq> []" by auto
  from assms(2) have sq: "squeeze_tolist row = PyList row"
    by (simp add: squeeze_tolist_cases)
  from interpret_probs_list [OF ne assms(3)] assms(1) sq show ?thesis
    by (auto simp: classify_audio_def classify_body_def)
qed

lemma row_length_cases:
  "row = [] \<or> (\<exists>x. row = [x]) \<or> (2 \<le> length row \<and> length row \<le> 8) \<or> 8 < length row"
  by (cases row; cases "tl row") auto

lemma classify_audio_success_iff:
  assumes "softmax_row h n p = Inr row"
  shows "(map_of (classify_audio h n p) ''success'' = Some (JBool True)) =
         (2 \<le> length row \<and> length row \<le> 8)"
proof -
  consider "row = []" | x where "row = [x]" | "2 \<le> length row \<and> length row \<le> 8" | "8 < length row"
    using row_length_cases [of row] by blast
  then show ?thesis
  proof cases
    case 1
    with assms show ?thesis by (simp add: classify_audio_empty_row)
  next
    case 2
    with assms show ?thesis by (simp add: classify_audio_single_row)
  next
    case 3
    with classify_audio_good_row [OF assms] show ?thesis by auto
  next
    case 4
    with assms show ?thesis by (simp add: classify_audio_long_row)
  qed
qed

text \<open>
  Claim C2. Whenever \<^verbatim>\<open>classify_audio\<close> returns a success for the probability row
  the model produced, some index \<open>i\<close> below 8 holds a maximum of the row, every
  earlier entry is strictly smaller (so \<open>i\<close> is the first occurrence of the
  maximum), the returned emotion is the entry at \<open>i\<close> of the ordered table
  angry, calm, disgust, fear, happy, neutral, sad, surprise, and the returned
  confidence is the probability at \<open>i\<close>. For the row
  \<open>[0.1, 0.05, 0.05, 0.1, 0.5, 0.1, 0.05, 0.05]\<close> the emotion is "happy" (index 4)
  and the confidence 0.5; for a row whose maximum occurs at the indices 1 and 3
  the emotion is "calm" (index 1).
\<close>

theorem dominant_is_first_maximum:
  assumes "softmax_row h n p = Inr row"
    and "map_of (classify_audio h n p) ''success'' = Some (JBool True)"
  shows "\<exists>i. i < length row \<and> i < 8 \<and> (\<forall>j<length row. row ! j \<le> row ! i) \<and>
           (\<forall>j<i. row ! j < row ! i) \<and>
           map_of (classify_audio h n p) ''emotion'' =
             Some (JStr ([''angry'', ''calm'', ''disgust'', ''fear'', ''happy'', ''neutral'',
                          ''sad'', ''surprise''] ! i)) \<and>
           map_of (classify_audio h n p) ''confidence'' = Some (JNum (row ! i))"
proof -
  from assms classify_audio_success_iff [OF assms(1)]
  have len: "2 \<le> length row" "length row \<le> 8" by simp_all
  from classify_audio_good_row [OF assms(1) len] obtain i where i: "i < length row"
    "\<forall>j<length row. row ! j \<le> row ! i" "\<forall>j<i. row ! j < row ! i"
    "classify_audio h n p =
       [(''success'', JBool True),
        (''emotion'', JStr (map snd id2label ! i)),
        (''confidence'', JNum (row ! i)),
        (''scores'', JObj (map (\<lambda>k. (map snd id2label ! k, JNum (row ! k))) [0..<length row])),
        (''model'', JStr ''huggingface-prithiv'')]" by blast
  from i(1) len(2) have i8: "i < 8" by simp
  have table: "map snd id2label =
      [''angry'', ''calm'', ''disgust'', ''fear'', ''happy'', ''neutral'', ''sad'', ''surprise'']"
    by (simp add: id2label_def)
  from i i8 show ?thesis
    unfolding table by auto
qed

lemma softmax_row_hub_returning: "softmax_row (hub_returning row) n p = Inr row"
  by (simp add: softmax_row_def hub_returning_def)

theorem dominant_is_first_maximum_witness:
  "softmax_row (hub_returning [0.1, 0.05, 0.05, 0.1, 0.5, 0.1, 0.05, 0.05]) ''m'' ''clip.wav''
     = Inr [0.1, 0.05, 0.05, 0.1, 0.5, 0.1, 0.05, 0.05] \<and>
   map_of (classify_audio (hub_returning [0.1, 0.05, 0.05, 0.1, 0.5, 0.1, 0.05, 0.05]) ''m'' ''clip.wav'')
     ''success'' = Some (JBool True) \<and>
   map_of (classify_audio (hub_returning [0.1, 0.05, 0.05, 0.1, 0.5, 0.1, 0.05, 0.05]) ''m'' ''clip.wav'')
     ''emotion'' = Some (JStr ''happy'') \<and>
   map_of (classify_audio (hub_returning [0.1, 0.05, 0.05, 0.1, 0.5, 0.1, 0.05, 0.05]) ''m'' ''clip.wav'')
     ''confidence'' = Some (JNum 0.5) \<and>
   map_of (classify_audio (hub_returning [0.2, 0.3, 0.2, 0.3]) ''m'' ''clip.wav'')
     ''success'' = Some (JBool True) \<and>
   map_of (classify_audio (hub_returning [0.2, 0.3, 0.2, 0.3]) ''m'' ''clip.wav'')
     ''emotion'' = Some (JStr ''calm'') \<and>
   map_of (classify_audio (hub_returning [0.2, 0.3, 0.2, 0.3]) ''m'' ''clip.wav'')
     ''confidence'' = Some (JNum 0.3)"
proof -
  let ?row = "[0.1, 0.05, 0.05, 0.1, 0.5, 0.1, 0.05, 0.05] :: real list"
  let ?r = "classify_audio (hub_returning ?row) ''m'' ''clip.wav''"
  have r: "softmax_row (hub_returning ?row) ''m'' ''clip.wav'' = Inr ?row"
    by (rule softmax_row_hub_returning)
  have s: "map_of ?r ''success'' = Some (JBool True)"
    using classify_audio_success_iff [OF r] by simp
  from dominant_is_first_maximum [OF r s] obtain i where i: "i < 8"
    "\<forall>j<length ?row. ?row ! j \<le> ?row ! i"
    "map_of ?r ''emotion'' =
       Some (JStr ([''angry'', ''calm'', ''disgust'', ''fear'', ''happy'', ''neutral'',
                    ''sad'', ''surprise''] ! i))"
    "map_of ?r ''confidence'' = Some (JNum (?row ! i))" by blast
  have "(4::nat) < length ?row" by simp
  with i(2) have "?row ! 4 \<le> ?row ! i" by blast
  with i(1) have i4: "i = 4"
    using nat_lt_8_cases [of i] by auto
  let ?tie = "[0.2, 0.3, 0.2, 0.3] :: real list"
  let ?t = "classify_audio (hub_returning ?tie) ''m'' ''clip.wav''"
  have rt: "softmax_row (hub_returning ?tie) ''m'' ''clip.wav'' = Inr ?tie"
    by (rule softmax_row_hub_returning)
  have st: "map_of ?t ''success'' = Some (JBool True)"
    using classify_audio_success_iff [OF rt] by simp
  from dominant_is_first_maximum [OF rt st] obtain k where k: "k < length ?tie"
    "\<forall>j<length ?tie. ?tie ! j \<le> ?tie ! k" "\<forall>j<k. ?tie ! j < ?tie ! k"
    "map_of ?t ''emotion'' =
       Some (JStr ([''angry'', ''calm'', ''disgust'', ''fear'', ''happy'', ''neutral'',
                    ''sad'', ''surprise''] ! k))"
    "map_of ?t ''confidence'' = Some (JNum (?tie ! k))" by blast
  have "(1::nat) < length ?tie" by simp
  with k(2) have top: "?tie ! 1 \<le> ?tie ! k" by blast
  from k(1) have "k = 0 \<or> k = 1 \<or> k = 2 \<or> k = 3" by auto
  with top have "k = 1 \<or> k = 3" by auto
  moreover have "k \<noteq> 3"
  proof
    assume "k = 3"
    then have "(1::nat) < k" by simp
    with k(3) have "?tie ! 1 < ?tie ! k" by blast
    with \<open>k = 3\<close> show False by simp
  qed
  ultimately have k1: "k = 1" by simp
  from r s i(3) i(4) i4 st k(4) k(5) k1 show ?thesis by simp
qed


subsection \<open>The shape of the result\<close>

lemma failure_result_keys:
  "map_of (failure_result e) ''success'' = Some (JBool False)"
  "map_of (failure_result e) ''error'' = Some (JStr (str_exc e))"
  "map_of (failure_result e) ''emotion'' = None"
  "map_of (failure_result e) ''confidence'' = None"
  "map_of (failure_result e) ''scores'' = None"
  by (simp_all add: failure_result_def)

lemma classify_audio_forms:
  "(\<exists>e. classify_audio h n p = failure_result e) \<or>
   (\<exists>row i. softmax_row h n p = Inr row \<and> 2 \<le> length row \<and> length row \<le> 8 \<and> i < length row \<and>
      (\<forall>j<length row. row ! j \<le> row ! i) \<and>
      classify_audio h n p =
        [(''success'', JBool True),
         (''emotion'', JStr (map snd id2label ! i)),
         (''confidence'', JNum (row ! i)),
         (''scores'', JObj (map (\<lambda>k. (map snd id2label ! k, JNum (row ! k))) [0..<length row])),
         (''model'', JStr ''huggingface-prithiv'')])"
proof (cases "softmax_row h n p")
  case (Inl e)
  then show ?thesis by (auto simp: classify_audio_raised failure_result_def)
next
  case (Inr row)
  consider "row = []" | x where "row = [x]" | "2 \<le> length row \<and> length row \<le> 8" | "8 < length row"
    using row_length_cases [of row] by blast
  then show ?thesis
  proof cases
    case 1
    with Inr have "classify_audio h n p = failure_result (ValueError ''max() arg is an empty sequence'')"
      by (simp add: classify_audio_empty_row failure_result_def)
    then show ?thesis by blast
  next
    case 2
    with Inr have "classify_audio h n p = failure_result (TypeError ''object of type 'float' has no len()'')"
      by (simp add: classify_audio_single_row failure_result_def)
    then show ?thesis by blast
  next
    case 3
    with classify_audio_good_row [OF Inr] Inr show ?thesis by blast
  next
    case 4
    with Inr have "classify_audio h n p = failure_result (KeyError ''8'')"
      by (simp add: classify_audio_long_row failure_result_def)
    then show ?thesis by blast
  qed
qed

text \<open>
  Claim C3. The dictionary returned by \<^verbatim>\<open>classify_audio\<close> always has a boolean
  under \<open>success\<close>. If it is false, the keys \<open>emotion\<close>, \<open>confidence\<close> and
  \<open>scores\<close> are absent and \<open>error\<close> holds a string; if it is true, \<open>emotion\<close>,
  \<open>confidence\<close> and \<open>scores\<close> are present and \<open>error\<close> is absent.
\<close>

theorem result_shape_invariant:
  "(map_of (classify_audio h n p) ''success'' = Some (JBool False) \<or>
    map_of (classify_audio h n p) ''success'' = Some (JBool True)) \<and>
   (map_of (classify_audio h n p) ''success'' = Some (JBool False) \<longrightarrow>
      map_of (classify_audio h n p) ''emotion'' = None \<and>
      map_of (classify_audio h n p) ''confidence'' = None \<and>
      map_of (classify_audio h n p) ''scores'' = None \<and>
      (\<exists>msg. map_of (classify_audio h n p) ''error'' = Some (JStr msg))) \<and>
   (map_of (classify_audio h n p) ''success'' = Some (JBool True) \<longrightarrow>
      (\<exists>emotion. map_of (classify_audio h n p) ''emotion'' = Some (JStr emotion)) \<and>
      (\<exists>c. map_of (classify_audio h n p) ''confidence'' = Some (JNum c)) \<and>
      (\<exists>scores. map_of (classify_audio h n p) ''scores'' = Some (JObj scores)) \<and>
      map_of (classify_audio h n p) ''error'' = None)"
  using classify_audio_forms [of h n p]
  by (auto simp: failure_result_keys)

lemma hub_librosa_update:
  "softmax_row ((hub_returning row)\<lparr>librosa_load := (\<lambda>_. Inl e)\<rparr>) n p = Inl e"
  by (simp add: softmax_row_def hub_returning_def)

theorem result_shape_invariant_witness:
  "map_of (classify_audio ((hub_returning [])\<lparr>librosa_load := (\<lambda>_. Inl (LibraryError ''bad file''))\<rparr>)
     ''m'' ''clip.wav'') ''success'' = Some (JBool False) \<and>
   map_of (classify_audio ((hub_returning [])\<lparr>librosa_load := (\<lambda>_. Inl (LibraryError ''bad file''))\<rparr>)
     ''m'' ''clip.wav'') ''scores'' = None \<and>
   map_of (classify_audio ((hub_returning [])\<lparr>librosa_load := (\<lambda>_. Inl (LibraryError ''bad file''))\<rparr>)
     ''m'' ''clip.wav'') ''error'' = Some (JStr ''bad file'') \<and>
   map_of (classify_audio (hub_returning [0.25, 0.75]) ''m'' ''clip.wav'') ''success'' = Some (JBool True) \<and>
   map_of (classify_audio (hub_returning [0.25, 0.75]) ''m'' ''clip.wav'') ''emotion'' = Some (JStr ''calm'') \<and>
   map_of (classify_audio (hub_returning [0.25, 0.75]) ''m'' ''clip.wav'') ''error'' = None"
proof -
  let ?bad = "(hub_returning [])\<lparr>librosa_load := (\<lambda>_. Inl (LibraryError ''bad file''))\<rparr>"
  let ?good = "hub_returning [0.25, 0.75]"
  have f: "classify_audio ?bad ''m'' ''clip.wav'' = failure_result (LibraryError ''bad file'')"
    using classify_audio_raised [OF hub_librosa_update] by (simp add: failure_result_def)
  have s: "map_of (classify_audio ?good ''m'' ''clip.wav'') ''success'' = Some (JBool True)"
    using classify_audio_success_iff [OF softmax_row_hub_returning, of "[0.25, 0.75]" "''m''" "''clip.wav''"]
    by simp
  have e: "map_of (classify_audio ?good ''m'' ''clip.wav'') ''emotion'' = Some (JStr ''calm'')"
    by (simp add: classify_audio_def classify_body_def softmax_row_hub_returning squeeze_tolist_def
        interpret_probs_def id2label_get_def str_nat_digit digit_char_def id2label_def py_max_def
        dict_set_def upt_rec)
  from result_shape_invariant [of ?bad "''m''" "''clip.wav''"]
       result_shape_invariant [of ?good "''m''" "''clip.wav''"] f s e
  show ?thesis by (simp add: failure_result_keys)
qed


subsection \<open>The scores dictionary\<close>

lemma scores_as_zip:
  "n \<le> 8 \<Longrightarrow>
   map (\<lambda>k. (map snd id2label ! k, g k)) [0..<n] = zip (take n (map snd id2label)) (map g [0..<n])"
  by (rule nth_equalityI) (simp_all add: id2label_def)

lemma scores_lookup:
  assumes "i < n" and "n \<le> 8"
  shows "map_of (map (\<lambda>k. (map snd id2label ! k, g k)) [0..<n]) (map snd id2label ! i) = Some (g i)"
proof -
  have len: "length (take n (map snd id2label)) = length (map g [0..<n])"
    using assms(2) by (simp add: id2label_def)
  have dist: "distinct (take n (map snd id2label))"
    using labels_distinct by (rule distinct_take)
  have "map_of (zip (take n (map snd id2label)) (map g [0..<n])) (take n (map snd id2label) ! i)
          = Some (map g [0..<n] ! i)"
    using len dist assms(1) by (intro map_of_zip_nth) simp_all
  with assms show ?thesis by (simp add: scores_as_zip)
qed

lemma scores_values:
  assumes "map_of (map (\<lambda>k. (map snd id2label ! k, g k)) [0..<n]) l = Some v"
  shows "\<exists>k<n. v = g k"
proof -
  from assms have "(l, v) \<in> set (map (\<lambda>k. (map snd id2label ! k, g k)) [0..<n])"
    by (rule map_of_SomeD)
  then show ?thesis by auto
qed

text \<open>
  Claim C9. In every successful result the confidence is the value the scores
  dictionary holds under the returned emotion, and no value of the scores
  dictionary exceeds it.
\<close>

theorem confidence_is_top_score:
  assumes "map_of (classify_audio h n p) ''success'' = Some (JBool True)"
  shows "\<exists>emotion c scores.
           map_of (classify_audio h n p) ''emotion'' = Some (JStr emotion) \<and>
           map_of (classify_audio h n p) ''confidence'' = Some (JNum c) \<and>
           map_of (classify_audio h n p) ''scores'' = Some (JObj scores) \<and>
           map_of scores emotion = Some (JNum c) \<and>
           (\<forall>label v. map_of scores label = Some v \<longrightarrow> (\<exists>x. v = JNum x \<and> x \<le> c))"
proof -
  from classify_audio_forms [of h n p] assms obtain row i where
    row: "2 \<le> length row" "length row \<le> 8" "i < length row"
      "\<forall>j<length row. row ! j \<le> row ! i"
    and r: "classify_audio h n p =
        [(''success'', JBool True),
         (''emotion'', JStr (map snd id2label ! i)),
         (''confidence'', JNum (row ! i)),
         (''scores'', JObj (map (\<lambda>k. (map snd id2label ! k, JNum (row ! k))) [0..<length row])),
         (''model'', JStr ''huggingface-prithiv'')]"
    by (auto simp: failure_result_keys)
  let ?scores = "map (\<lambda>k. (map snd id2label ! k, JNum (row ! k))) [0..<length row]"
  have top: "map_of ?scores (map snd id2label ! i) = Some (JNum (row ! i))"
    using row(3) row(2) by (rule scores_lookup)
  have all: "\<forall>label v. map_of ?scores label = Some v \<longrightarrow> (\<exists>x. v = JNum x \<and> x \<le> row ! i)"
  proof (intro allI impI)
    fix label v assume "map_of ?scores label = Some v"
    from scores_values [OF this] obtain k where "k < length row" "v = JNum (row ! k)" by blast
    with row(4) show "\<exists>x. v = JNum x \<and> x \<le> row ! i" by blast
  qed
  from r top all show ?thesis by simp
qed

theorem confidence_is_top_score_witness:
  "map_of (classify_audio (hub_returning [0.2, 0.5, 0.3]) ''m'' ''clip.wav'') ''success''
     = Some (JBool True) \<and>
   (\<exists>emotion c scores.
      map_of (classify_audio (hub_returning [0.2, 0.5, 0.3]) ''m'' ''clip.wav'') ''emotion''
        = Some (JStr emotion) \<and>
      map_of (classify_audio (hub_returning [0.2, 0.5, 0.3]) ''m'' ''clip.wav'') ''confidence''
        = Some (JNum c) \<and>
      map_of (classify_audio (hub_returning [0.2, 0.5, 0.3]) ''m'' ''clip.wav'') ''scores''
        = Some (JObj scores) \<and>
      map_of scores emotion = Some (JNum c) \<and>
      (\<forall>label v. map_of scores label = Some v \<longrightarrow> (\<exists>x. v = JNum x \<and> x \<le> c)))"
proof -
  have s: "map_of (classify_audio (hub_returning [0.2, 0.5, 0.3]) ''m'' ''clip.wav'') ''success''
     = Some (JBool True)"
    using classify_audio_success_iff [OF softmax_row_hub_returning, of "[0.2, 0.5, 0.3]" "''m''" "''clip.wav''"]
    by simp
  from s confidence_is_top_score [OF s] show ?thesis by blast
qed

subsection \<open>Rows that do not match the label table\<close>

text \<open>
  Claim C10, as the code has it. A row of more than 8 probabilities gives the
  failure result of the \<^verbatim>\<open>KeyError\<close> raised for index 8. A row of 2 to 7
  probabilities gives a success whose scores dictionary has exactly the first
  that many labels of the table as its keys.
\<close>

theorem label_table_mismatch:
  assumes "softmax_row h n p = Inr row"
  shows "(8 < length row \<longrightarrow> classify_audio h n p = failure_result (KeyError ''8'')) \<and>
         (2 \<le> length row \<and> length row < 8 \<longrightarrow>
            map_of (classify_audio h n p) ''success'' = Some (JBool True) \<and>
            (\<exists>scores. map_of (classify_audio h n p) ''scores'' = Some (JObj scores) \<and>
               map fst scores = take (length row) (map snd id2label)))"
proof (intro conjI impI)
  assume "8 < length row"
  with assms show "classify_audio h n p = failure_result (KeyError ''8'')"
    by (simp add: classify_audio_long_row failure_result_def)
next
  assume a: "2 \<le> length row \<and> length row < 8"
  then show "map_of (classify_audio h n p) ''success'' = Some (JBool True)"
    by (simp add: classify_audio_success_iff [OF assms])
next
  assume a: "2 \<le> length row \<and> length row < 8"
  then have len: "2 \<le> length row" "length row \<le> 8" by simp_all
  from classify_audio_good_row [OF assms len] obtain i where
    r: "classify_audio h n p =
        [(''success'', JBool True),
         (''emotion'', JStr (map snd id2label ! i)),
         (''confidence'', JNum (row ! i)),
         (''scores'', JObj (map (\<lambda>k. (map snd id2label ! k, JNum (row ! k))) [0..<length row])),
         (''model'', JStr ''huggingface-prithiv'')]" by blast
  have "map fst (map (\<lambda>k. (map snd id2label ! k, JNum (row ! k))) [0..<length row])
          = take (length row) (map snd id2label)"
    using len(2) by (subst scores_as_zip) (simp_all add: id2label_def)
  with r show "\<exists>scores. map_of (classify_audio h n p) ''scores'' = Some (JObj scores) \<and>
               map fst scores = take (length row) (map snd id2label)"
    by simp
qed

theorem label_table_mismatch_witness:
  "softmax_row (hub_returning [0.1, 0.1, 0.1, 0.1, 0.1, 0.1, 0.1, 0.1, 0.2]) ''m'' ''clip.wav''
     = Inr [0.1, 0.1, 0.1, 0.1, 0.1, 0.1, 0.1, 0.1, 0.2] \<and>
   classify_audio (hub_returning [0.1, 0.1, 0.1, 0.1, 0.1, 0.1, 0.1, 0.1, 0.2]) ''m'' ''clip.wav''
     = failure_result (KeyError ''8'') \<and>
   softmax_row (hub_returning [0.2, 0.5, 0.3]) ''m'' ''clip.wav'' = Inr [0.2, 0.5, 0.3] \<and>
   map_of (classify_audio (hub_returning [0.2, 0.5, 0.3]) ''m'' ''clip.wav'') ''success''
     = Some (JBool True) \<and>
   (\<exists>scores.
      map_of (classify_audio (hub_returning [0.2, 0.5, 0.3]) ''m'' ''clip.wav'') ''scores''
        = Some (JObj scores) \<and>
      map fst scores = [''angry'', ''calm'', ''disgust''])"
  using label_table_mismatch [OF softmax_row_hub_returning,
          of "[0.1, 0.1, 0.1, 0.1, 0.1, 0.1, 0.1, 0.1, 0.2]" "''m''" "''clip.wav''"]
        label_table_mismatch [OF softmax_row_hub_returning, of "[0.2, 0.5, 0.3]" "''m''" "''clip.wav''"]
  by (simp add: softmax_row_hub_returning id2label_def)

text \<open>
  Claim C10 as stated fails for a row of one probability, which is fewer than 8
  entries: \<^verbatim>\<open>squeeze\<close> turns it into a bare float, \<^verbatim>\<open>len\<close> raises, and the
  result is a failure without scores, not a success with one label.
\<close>

theorem single_probability_counterexample:
  "softmax_row (hub_returning [1]) ''m'' ''clip.wav'' = Inr [1] \<and>
   length [1 :: real] < 8 \<and>
   classify_audio (hub_returning [1]) ''m'' ''clip.wav''
     = failure_result (TypeError ''object of type 'float' has no len()'') \<and>
   map_of (classify_audio (hub_returning [1]) ''m'' ''clip.wav'') ''success'' = Some (JBool False) \<and>
   map_of (classify_audio (hub_returning [1]) ''m'' ''clip.wav'') ''scores'' = None"
  using classify_audio_single_row [OF softmax_row_hub_returning, of 1 "''m''" "''clip.wav''"]
  by (simp add: softmax_row_hub_returning failure_result_def)


subsection \<open>Failures become results\<close>

lemma softmax_row_stages:
  "model_from_pretrained h n = Inl e \<Longrightarrow> softmax_row h n p = Inl e"
  "model_from_pretrained h n = Inr m \<Longrightarrow> extractor_from_pretrained h n = Inl e \<Longrightarrow>
     softmax_row h n p = Inl e"
  "model_from_pretrained h n = Inr m \<Longrightarrow> extractor_from_pretrained h n = Inr ex \<Longrightarrow>
     librosa_load h p = Inl e \<Longrightarrow> softmax_row h n p = Inl e"
  "model_from_pretrained h n = Inr m \<Longrightarrow> extractor_from_pretrained h n = Inr ex \<Longrightarrow>
     librosa_load h p = Inr sp \<Longrightarrow> processor_call h ex sp = Inl e \<Longrightarrow> softmax_row h n p = Inl e"
  "model_from_pretrained h n = Inr m \<Longrightarrow> extractor_from_pretrained h n = Inr ex \<Longrightarrow>
     librosa_load h p = Inr sp \<Longrightarrow> processor_call h ex sp = Inr inp \<Longrightarrow>
     softmax_row h n p = forward_softmax h m inp"
  by (simp_all add: softmax_row_def)

lemma classify_audio_success_flag:
  "\<exists>b. map_of (classify_audio h n p) ''success'' = Some (JBool b)"
  using classify_audio_forms [of h n p] by (auto simp: failure_result_keys)

lemma main_short_argv:
  "length argv < 3 \<Longrightarrow> main h argv = [failure_result (IndexError ''list index out of range'')]"
  by (simp add: main_def argv_get_def)

lemma main_full_argv:
  "3 \<le> length argv \<Longrightarrow> main h argv = [classify_audio h (argv ! 1) (argv ! 2)]"
  by (simp add: main_def argv_get_def)

lemma main_emits_one:
  "\<exists>r b. main h argv = [r] \<and> map_of r ''success'' = Some (JBool b)"
proof (cases "length argv < 3")
  case True
  then show ?thesis by (auto simp: main_short_argv failure_result_keys)
next
  case False
  then have "main h argv = [classify_audio h (argv ! 1) (argv ! 2)]"
    by (simp add: main_full_argv)
  with classify_audio_success_flag [of h "argv ! 1" "argv ! 2"] show ?thesis by auto
qed

lemma script_imported: "script (Inr u) h argv = (main h argv, None)"
  by (simp add: script_def)

text \<open>
  Claim C1, as the code has it. Whichever library call of \<^verbatim>\<open>classify_audio\<close>
  raises first (loading the model, loading the feature extractor, decoding the
  audio, extracting features, the forward pass), and whichever statement after
  them raises, the function returns the failure dictionary
  \<open>{success: false, error: str(e)}\<close> of that exception: the error is the
  exception's message as it is, empty when the exception has none. The function
  always returns a dictionary with a boolean \<open>success\<close>. Once the module-level
  imports have returned, the process ends without an uncaught exception and
  writes exactly one such dictionary: the failure dictionary of the
  \<^verbatim>\<open>IndexError\<close> when arguments are missing, and otherwise what
  \<^verbatim>\<open>classify_audio\<close> returned.
\<close>

theorem failures_become_results:
  "failure_result e = [(''success'', JBool False), (''error'', JStr (str_exc e))] \<and>
   (model_from_pretrained h n = Inl e \<longrightarrow> classify_audio h n p = failure_result e) \<and>
   (model_from_pretrained h n = Inr m \<and> extractor_from_pretrained h n = Inl e
      \<longrightarrow> classify_audio h n p = failure_result e) \<and>
   (model_from_pretrained h n = Inr m \<and> extractor_from_pretrained h n = Inr ex \<and>
    librosa_load h p = Inl e
      \<longrightarrow> classify_audio h n p = failure_result e) \<and>
   (model_from_pretrained h n = Inr m \<and> extractor_from_pretrained h n = Inr ex \<and>
    librosa_load h p = Inr sp \<and> processor_call h ex sp = Inl e
      \<longrightarrow> classify_audio h n p = failure_result e) \<and>
   (model_from_pretrained h n = Inr m \<and> extractor_from_pretrained h n = Inr ex \<and>
    librosa_load h p = Inr sp \<and> processor_call h ex sp = Inr inp \<and> forward_softmax h m inp = Inl e
      \<longrightarrow> classify_audio h n p = failure_result e) \<and>
   (softmax_row h n p = Inr row \<and> interpret_probs (squeeze_tolist row) = Inl e
      \<longrightarrow> classify_audio h n p = failure_result e) \<and>
   (\<exists>b. map_of (classify_audio h n p) ''success'' = Some (JBool b)) \<and>
   (third_party = Inr u \<and> length argv < 3
      \<longrightarrow> script third_party h argv =
            ([failure_result (IndexError ''list index out of range'')], None)) \<and>
   (third_party = Inr u \<and> 3 \<le> length argv
      \<longrightarrow> script third_party h argv = ([classify_audio h (argv ! 1) (argv ! 2)], None)) \<and>
   (third_party = Inr u
      \<longrightarrow> (\<exists>r b. script third_party h argv = ([r], None) \<and>
                   map_of r ''success'' = Some (JBool b)))"
proof -
  have raised: "\<And>x. softmax_row h n p = Inl x \<Longrightarrow> classify_audio h n p = failure_result x"
    by (simp add: classify_audio_def classify_body_def)
  have post: "softmax_row h n p = Inr row \<and> interpret_probs (squeeze_tolist row) = Inl e
      \<longrightarrow> classify_audio h n p = failure_result e"
    by (simp add: classify_audio_def classify_body_def)
  have fr: "failure_result e = [(''success'', JBool False), (''error'', JStr (str_exc e))]"
    by (simp add: failure_result_def)
  have emitted: "third_party = Inr u
      \<longrightarrow> (\<exists>r b. script third_party h argv = ([r], None) \<and>
                   map_of r ''success'' = Some (JBool b))"
    using main_emits_one [of h argv] by (auto simp: script_imported)
  show ?thesis
    apply (intro conjI)
              apply (rule fr)
             apply (rule impI, rule raised, simp add: softmax_row_stages(1))
            apply (rule impI, rule raised, simp add: softmax_row_stages(2))
           apply (rule impI, rule raised, simp add: softmax_row_stages(3))
          apply (rule impI, rule raised, simp add: softmax_row_stages(4))
         apply (rule impI, rule raised, simp add: softmax_row_stages(5))
        apply (rule post)
       apply (rule classify_audio_success_flag)
      apply (simp add: script_imported main_short_argv)
     apply (simp add: script_imported main_full_argv)
    apply (rule emitted)
    done
qed

theorem failures_become_results_witness:
  "librosa_load (hub_unreadable_audio (LibraryError ''Error opening file'')) ''clip.wav''
     = Inl (LibraryError ''Error opening file'') \<and>
   classify_audio (hub_unreadable_audio (LibraryError ''Error opening file'')) ''m'' ''clip.wav''
     = [(''success'', JBool False), (''error'', JStr ''Error opening file'')] \<and>
   length [''huggingface_emotion.py''] < 3 \<and>
   script (Inr ()) (hub_unreadable_audio (LibraryError ''Error opening file''))
       [''huggingface_emotion.py'']
     = ([[(''success'', JBool False), (''error'', JStr ''list index out of range'')]], None) \<and>
   script (Inr ()) (hub_unreadable_audio (LibraryError ''Error opening file''))
       [''huggingface_emotion.py'', ''m'', ''clip.wav'']
     = ([[(''success'', JBool False), (''error'', JStr ''Error opening file'')]], None)"
  using failures_become_results [of "LibraryError ''Error opening file''"
          "hub_unreadable_audio (LibraryError ''Error opening file'')" "''m''" "''clip.wav''"
          "()" "()" "()" "()" "[]" "Inr ()" "()" "[''huggingface_emotion.py'']"]
        failures_become_results [of "LibraryError ''Error opening file''"
          "hub_unreadable_audio (LibraryError ''Error opening file'')" "''m''" "''clip.wav''"
          "()" "()" "()" "()" "[]" "Inr ()" "()" "[''huggingface_emotion.py'', ''m'', ''clip.wav'']"]
  by (simp add: hub_unreadable_audio_def hub_returning_def failure_result_def)

text \<open>
  Claim C1 as stated promises a non-empty error message for every failure, and a
  result object on every fault outside \<^verbatim>\<open>classify_audio\<close>. An exception raised
  without a message (as an audio backend does for a file it cannot decode) is
  converted like any other, and the error is the empty string. An exception in
  the module-level imports, which no handler encloses, ends the process with
  nothing written to the output stream.
\<close>

theorem empty_message_counterexample:
  "librosa_load (hub_unreadable_audio (LibraryError '''')) ''clip.wav'' = Inl (LibraryError '''') \<and>
   classify_audio (hub_unreadable_audio (LibraryError '''')) ''m'' ''clip.wav''
     = [(''success'', JBool False), (''error'', JStr '''')] \<and>
   script (Inl (LibraryError ''No module named librosa'')) (hub_returning [0.25, 0.75])
       [''huggingface_emotion.py'', ''m'', ''clip.wav'']
     = ([], Some (LibraryError ''No module named librosa''))"
  by (simp add: classify_audio_def classify_body_def softmax_row_def hub_unreadable_audio_def
      hub_returning_def failure_result_def script_def)

section \<open>Properties of the Compatible Attention Layer\<close>

text \<open>
  Claim C7. For every score mode and input shape, building a layer made with
  \<open>use_scale\<close> false registers no weight, so it has no trainable weight; building
  one made with \<open>use_scale\<close> true registers exactly one weight, which is
  trainable, scalar, named \<open>scale\<close> and initialised by \<open>ones\<close>, that is to 1.0.
\<close>

theorem scale_weight_on_build:
  "weights (build (attention_init False sm) input_shape) = [] \<and>
   trainable_weights (build (attention_init False sm) input_shape) = [] \<and>
   scale (build (attention_init False sm) input_shape) = None \<and>
   weights (build (attention_init True sm) input_shape)
     = [\<lparr>w_name = ''scale'', w_shape = [], w_initializer = ''ones'', w_trainable = True\<rparr>] \<and>
   trainable_weights (build (attention_init True sm) input_shape)
     = [\<lparr>w_name = ''scale'', w_shape = [], w_initializer = ''ones'', w_trainable = True\<rparr>] \<and>
   scale (build (attention_init True sm) input_shape)
     = Some \<lparr>w_name = ''scale'', w_shape = [], w_initializer = ''ones'', w_trainable = True\<rparr> \<and>
   initial_value \<lparr>w_name = ''scale'', w_shape = [], w_initializer = ''ones'', w_trainable = True\<rparr>
     = Some [1]"
  by (simp add: build_def attention_init_def add_weight_def trainable_weights_def initial_value_def
      Let_def)


theorem scale_weight_on_build_witness:
  "trainable_weights (build (attention_init False ''dot'') [1, 174, 40]) = [] \<and>
   map w_name (trainable_weights (build (attention_init True ''dot'') [1, 174, 40])) = [''scale''] \<and>
   map initial_value (trainable_weights (build (attention_init True ''dot'') [1, 174, 40]))
     = [Some [1]]"
  using scale_weight_on_build [of "''dot''" "[1, 174, 40]"]
  by simp


section \<open>Properties of the Loader/Prober\<close>

subsection \<open>Reading a trace\<close>

lemma trace_parts_Nil:
  "calls_of [] = []" "lines_of [] = []" "attempts_of [] = []" "loads_of [] = []"
  "failure_lines [] = []" "warning_lines [] = []"
  by (simp_all add: calls_of_def lines_of_def attempts_of_def loads_of_def failure_lines_def
      warning_lines_def)

lemma trace_parts_append:
  "calls_of (t @ u) = calls_of t @ calls_of u"
  "lines_of (t @ u) = lines_of t @ lines_of u"
  "attempts_of (t @ u) = attempts_of t @ attempts_of u"
  "loads_of (t @ u) = loads_of t @ loads_of u"
  "failure_lines (t @ u) = failure_lines t @ failure_lines u"
  "warning_lines (t @ u) = warning_lines t @ warning_lines u"
  by (simp_all add: calls_of_def lines_of_def attempts_of_def loads_of_def failure_lines_def
      warning_lines_def)

lemma trace_parts_Print:
  "calls_of (Print l # t) = calls_of t"
  "lines_of (Print l # t) = l # lines_of t"
  "attempts_of (Print l # t) = attempts_of t"
  "loads_of (Print l # t) = loads_of t"
  "failure_lines (Print l # t) = (if sign_of l = CrossMark then l # failure_lines t else failure_lines t)"
  "warning_lines (Print l # t) = (if sign_of l = WarningSign then l # warning_lines t else warning_lines t)"
  by (simp_all add: calls_of_def lines_of_def attempts_of_def loads_of_def failure_lines_def
      warning_lines_def)

lemma trace_parts_Call:
  "calls_of (Call c # t) = c # calls_of t"
  "lines_of (Call c # t) = lines_of t"
  "attempts_of (Call c # t) = (case c of Invoke meth s \<Rightarrow> (s, meth) # attempts_of t | _ \<Rightarrow> attempts_of t)"
  "loads_of (Call c # t) = (case c of LoadModel p custom \<Rightarrow> custom # loads_of t | _ \<Rightarrow> loads_of t)"
  "failure_lines (Call c # t) = failure_lines t"
  "warning_lines (Call c # t) = warning_lines t"
  by (simp_all add: calls_of_def lines_of_def attempts_of_def loads_of_def failure_lines_def
      warning_lines_def split: call.splits)

lemmas trace_parts = trace_parts_Nil trace_parts_append trace_parts_Print trace_parts_Call

subsection \<open>One invocation\<close>

lemma sign_of_result_lines:
  "sign_of (succeeded_line meth s) = CheckMark" "sign_of (failed_line meth msg) = WarningSign"
  by (cases meth; simp)+

lemma attempt_parts:
  "attempts_of (fst (attempt w model meth s)) = [(s, meth)]"
  "loads_of (fst (attempt w model meth s)) = []"
  "failure_lines (fst (attempt w model meth s)) = []"
  "warning_lines (fst (attempt w model meth s)) = []"
  by (simp_all add: attempt_def trace_parts sign_of_result_lines split: sum.splits)


lemma try_invoke_parts:
  "attempts_of (fst (try_invoke w model meth s)) = [(s, meth)]"
  "loads_of (fst (try_invoke w model meth s)) = []"
  "failure_lines (fst (try_invoke w model meth s)) = []"
  using attempt_parts [of w model meth s]
  by (auto simp: try_invoke_def trace_parts sign_of_result_lines split: prod.splits option.splits)


subsection \<open>The order of the probe\<close>









subsection \<open>A probe in which nothing succeeds\<close>

lemma probe_Cons:
  "probe w model (s # rest) =
     Print (TestingShape s) # fst (try_invoke w model DirectCall s) @
     (if snd (try_invoke w model DirectCall s) then []
      else fst (try_invoke w model PredictCall s) @
        (if snd (try_invoke w model PredictCall s) then [] else probe w model rest))"
  by (simp split: prod.splits bool.splits)

lemma probe_quiet: "loads_of (probe w model shapes) = [] \<and> failure_lines (probe w model shapes) = []"
proof (induction shapes)
  case Nil
  then show ?case by (simp add: trace_parts)
next
  case (Cons s rest)
  then show ?case
    unfolding probe_Cons by (simp add: trace_parts try_invoke_parts)
qed

lemma probe_stage_parts:
  "loads_of (fst (probe_stage w model)) = []"
  "failure_lines (fst (probe_stage w model)) = []"
  "attempts_of (fst (probe_stage w model)) =
     (case model_summary w model of Inl e \<Rightarrow> [] | Inr u \<Rightarrow> attempts_of (probe w model test_shapes))"
  by (simp_all add: probe_stage_def trace_parts probe_quiet split: sum.splits)







subsection \<open>Loading with and without the substitution\<close>

lemma load_stage_loads:
  "loads_of (fst (load_stage w)) =
     (case load_model w model_path True of Inr m \<Rightarrow> [True] | Inl e \<Rightarrow> [True, False])"
  by (simp add: load_stage_def trace_parts probe_stage_parts split: sum.splits prod.splits)
     (metis fst_conv probe_stage_parts(1))+

lemma test_model_reaches_load:
  assumes "import_tensorflow w = Inr v" and "path_exists w model_path"
    and "path_getsize w model_path = Inr sz" and "import_keras w = Inr u"
  shows "test_model w =
     [Print Title, Print Rule, Print CheckingTensorflow,
      Call ImportTensorflow, Print (TensorflowVersion v),
      Print CheckingModelFile, Call (PathExists model_path),
      Print (ModelFileFound model_path), Call (PathGetsize model_path),
      Print (FileSize sz), Print AttemptingLoad, Call ImportKeras] @ fst (load_stage w) @
     (case snd (load_stage w) of None \<Rightarrow> [] | Some e \<Rightarrow> [Print (TestFailed (str_exc e))])"
  using assms
  by (simp add: test_model_def test_body_def split: prod.splits option.splits)

lemma load_stage_both_fail:
  "load_model w model_path True = Inl e1 \<Longrightarrow> load_model w model_path False = Inl e2 \<Longrightarrow>
   load_stage w =
     ([Call (LoadModel model_path True), Print (CustomObjectsFailed (str_exc e1)),
       Print TryingStandard, Call (LoadModel model_path False),
       Print (StandardAlsoFailed (str_exc e2))], None)"
  by (simp add: load_stage_def)

text \<open>
  Claim C6. In a run that reaches the load, the first load is the one with the
  substitution registered; the load without it is made exactly when the first
  raised. If both raise, the one line reporting a failure carries the message of
  the second exception and is the last thing printed (the message of the first
  appears only in the warning line before the retry), and no probe is made.
\<close>

theorem load_with_fallback:
  assumes "import_tensorflow w = Inr v" and "path_exists w model_path"
    and "path_getsize w model_path = Inr sz" and "import_keras w = Inr u"
  shows "(\<exists>rest. loads_of (test_model w) = True # rest) \<and>
         (load_model w model_path True = Inr m \<longrightarrow> loads_of (test_model w) = [True]) \<and>
         (load_model w model_path True = Inl e1 \<longrightarrow> loads_of (test_model w) = [True, False]) \<and>
         (load_model w model_path True = Inl e1 \<and> load_model w model_path False = Inl e2 \<longrightarrow>
            failure_lines (test_model w) = [StandardAlsoFailed (str_exc e2)] \<and>
            warning_lines (test_model w) = [CustomObjectsFailed (str_exc e1)] \<and>
            attempts_of (test_model w) = [] \<and>
            (\<exists>t. test_model w = t @ [Print (StandardAlsoFailed (str_exc e2))]))"
proof -
  note tm = test_model_reaches_load [OF assms]
  have loads: "loads_of (test_model w) =
     (case load_model w model_path True of Inr m \<Rightarrow> [True] | Inl e \<Rightarrow> [True, False])"
    unfolding tm by (simp add: trace_parts load_stage_loads split: option.splits)
  have both: "load_model w model_path True = Inl e1 \<and> load_model w model_path False = Inl e2 \<longrightarrow>
            failure_lines (test_model w) = [StandardAlsoFailed (str_exc e2)] \<and>
            warning_lines (test_model w) = [CustomObjectsFailed (str_exc e1)] \<and>
            attempts_of (test_model w) = [] \<and>
            (\<exists>t. test_model w = t @ [Print (StandardAlsoFailed (str_exc e2))])"
  proof
    assume a: "load_model w model_path True = Inl e1 \<and> load_model w model_path False = Inl e2"
    then have ls: "load_stage w =
     ([Call (LoadModel model_path True), Print (CustomObjectsFailed (str_exc e1)),
       Print TryingStandard, Call (LoadModel model_path False),
       Print (StandardAlsoFailed (str_exc e2))], None)"
      by (simp add: load_stage_both_fail)
    have "test_model w =
      [Print Title, Print Rule, Print CheckingTensorflow,
       Call ImportTensorflow, Print (TensorflowVersion v),
       Print CheckingModelFile, Call (PathExists model_path),
       Print (ModelFileFound model_path), Call (PathGetsize model_path),
       Print (FileSize sz), Print AttemptingLoad, Call ImportKeras,
       Call (LoadModel model_path True), Print (CustomObjectsFailed (str_exc e1)),
       Print TryingStandard, Call (LoadModel model_path False)] @
      [Print (StandardAlsoFailed (str_exc e2))]"
      unfolding tm ls by simp
    then show "failure_lines (test_model w) = [StandardAlsoFailed (str_exc e2)] \<and>
            warning_lines (test_model w) = [CustomObjectsFailed (str_exc e1)] \<and>
            attempts_of (test_model w) = [] \<and>
            (\<exists>t. test_model w = t @ [Print (StandardAlsoFailed (str_exc e2))])"
      by (auto simp: trace_parts)
  qed
  from loads both show ?thesis
    by (auto split: sum.splits)
qed

theorem load_with_fallback_witness:
  "load_model (world_unloadable (LibraryError ''Unknown layer'') (LibraryError ''bad marshal data''))
     model_path True = Inl (LibraryError ''Unknown layer'') \<and>
   load_model (world_unloadable (LibraryError ''Unknown layer'') (LibraryError ''bad marshal data''))
     model_path False = Inl (LibraryError ''bad marshal data'') \<and>
   loads_of (test_model
     (world_unloadable (LibraryError ''Unknown layer'') (LibraryError ''bad marshal data'')))
     = [True, False] \<and>
   failure_lines (test_model
     (world_unloadable (LibraryError ''Unknown layer'') (LibraryError ''bad marshal data'')))
     = [StandardAlsoFailed ''bad marshal data''] \<and>
   loads_of (test_model (world_invoking time_major_predict_only)) = [True]"
  using load_with_fallback [of
          "world_unloadable (LibraryError ''Unknown layer'') (LibraryError ''bad marshal data'')"
          "''2.15.0''" 1048576 "()" "()" "LibraryError ''Unknown layer''"
          "LibraryError ''bad marshal data''"]
        load_with_fallback [of "world_invoking time_major_predict_only"
          "''2.15.0''" 1048576 "()" "()" "LibraryError ''Unknown layer''"
          "LibraryError ''bad marshal data''"]
  by (simp add: world_unloadable_def world_invoking_def)

subsection \<open>A missing artifact\<close>

text \<open>
  Claim C8, as the code has it. If the artifact path does not exist, no load and
  no invocation is attempted. If moreover the import of TensorFlow, which comes
  before the existence check, returned, then the existence check is the last
  call of the run and "Model file not found" is its last line and the only
  failure it reports.
\<close>

theorem missing_artifact:
  "(\<not> path_exists w model_path \<longrightarrow>
      loads_of (test_model w) = [] \<and> attempts_of (test_model w) = []) \<and>
   (import_tensorflow w = Inr v \<and> \<not> path_exists w model_path \<longrightarrow>
      calls_of (test_model w) = [ImportTensorflow, PathExists model_path] \<and>
      failure_lines (test_model w) = [ModelFileNotFound model_path] \<and>
      (\<exists>t. test_model w = t @ [Print (ModelFileNotFound model_path)]))"
proof (intro conjI impI)
  assume "\<not> path_exists w model_path"
  then show "loads_of (test_model w) = []" "attempts_of (test_model w) = []"
    by (simp_all add: test_model_def test_body_def trace_parts split: sum.splits)
next
  assume a: "import_tensorflow w = Inr v \<and> \<not> path_exists w model_path"
  then have t: "test_model w =
     [Print Title, Print Rule, Print CheckingTensorflow, Call ImportTensorflow,
      Print (TensorflowVersion v), Print CheckingModelFile,
      Call (PathExists model_path)] @ [Print (ModelFileNotFound model_path)]"
    by (simp add: test_model_def test_body_def)
  then show "calls_of (test_model w) = [ImportTensorflow, PathExists model_path]"
    "failure_lines (test_model w) = [ModelFileNotFound model_path]"
    by (simp_all add: trace_parts)
  from t show "\<exists>t. test_model w = t @ [Print (ModelFileNotFound model_path)]"
    by blast
qed

theorem missing_artifact_witness:
  "\<not> path_exists ((world_invoking time_major_predict_only)\<lparr>path_exists := (\<lambda>_. False)\<rparr>) model_path \<and>
   calls_of (test_model ((world_invoking time_major_predict_only)\<lparr>path_exists := (\<lambda>_. False)\<rparr>))
     = [ImportTensorflow, PathExists ''./src/models/emotion_bilstm_final.h5''] \<and>
   failure_lines (test_model ((world_invoking time_major_predict_only)\<lparr>path_exists := (\<lambda>_. False)\<rparr>))
     = [ModelFileNotFound ''./src/models/emotion_bilstm_final.h5''] \<and>
   attempts_of (test_model ((world_invoking time_major_predict_only)\<lparr>path_exists := (\<lambda>_. False)\<rparr>))
     = []"
  using missing_artifact [of "(world_invoking time_major_predict_only)\<lparr>path_exists := (\<lambda>_. False)\<rparr>"
          "''2.15.0''"]
  by (simp add: world_invoking_def model_path_def)

text \<open>
  Claim C8 as stated fails on a machine where TensorFlow cannot be imported: the
  import comes before the existence check, its exception goes to the outer
  handler, and the run reports "Test failed" without looking at the path or
  printing "Model file not found".
\<close>

theorem tensorflow_missing_counterexample:
  "\<not> path_exists world_without_tensorflow model_path \<and>
   calls_of (test_model world_without_tensorflow) = [ImportTensorflow] \<and>
   lines_of (test_model world_without_tensorflow) =
     [Title, Rule, CheckingTensorflow, TestFailed ''No module named tensorflow'']"
  by (simp add: test_model_def test_body_def world_without_tensorflow_def world_invoking_def
      trace_parts)

end
